theory Spec2Isabelle
  imports Complex_Main
begin

section \<open>Match history\<close>

text \<open>
  A row of the match history, with the columns the pipeline reads. The \<open>Date\<close> column is
  used for ordering only: a \<open>dataframe\<close> below is the frame as it is after
  \<open>sort_values('Date').reset_index(drop=True)\<close>, oldest row first. Goals are Python
  integers, \<open>FTR\<close> is the result string (\<open>H\<close>, \<open>D\<close>, \<open>A\<close> in well-formed data).
  Floating-point numbers are modelled as reals.
\<close>

record match_row =
  HomeTeam :: string
  AwayTeam :: string
  FTHG :: int
  FTAG :: int
  FTR :: string

type_synonym dataframe = "match_row list"

text \<open>\<open>DataFrame.tail(n)\<close>: the last \<open>n\<close> rows; none for \<open>n = 0\<close>; all but the first
  \<open>-n\<close> rows for a negative \<open>n\<close>.\<close>

definition df_tail :: "int \<Rightarrow> 'a list \<Rightarrow> 'a list" where
  "df_tail n rows =
     (if n = 0 then []
      else if 0 < n then drop (length rows - nat n) rows
      else drop (nat (- n)) rows)"

text \<open>The Python slice \<open>xs[-n:]\<close>: the last \<open>n\<close> items; the whole list for \<open>n = 0\<close>;
  \<open>xs[k:]\<close> for \<open>n = -k < 0\<close>.\<close>

definition py_last :: "int \<Rightarrow> 'a list \<Rightarrow> 'a list" where
  "py_last n xs =
     (if 0 < n then drop (length xs - nat n) xs else drop (nat (- n)) xs)"

text \<open>\<open>Series.mean()\<close> of an integer column; the callers guard the empty case.\<close>

definition series_mean :: "int list \<Rightarrow> real" where
  "series_mean xs = real_of_int (sum_list xs) / real (length xs)"

text \<open>The boolean frames \<open>df['HomeTeam'] == team\<close>, \<open>df['AwayTeam'] == team\<close> and
  their disjunction, and the both-teams-scored mask.\<close>

definition home_rows :: "dataframe \<Rightarrow> string \<Rightarrow> dataframe" where
  "home_rows df team_name = filter (\<lambda>r. HomeTeam r = team_name) df"

definition away_rows :: "dataframe \<Rightarrow> string \<Rightarrow> dataframe" where
  "away_rows df team_name = filter (\<lambda>r. AwayTeam r = team_name) df"

definition all_rows :: "dataframe \<Rightarrow> string \<Rightarrow> dataframe" where
  "all_rows df team_name =
     filter (\<lambda>r. HomeTeam r = team_name \<or> AwayTeam r = team_name) df"

definition btts_count :: "dataframe \<Rightarrow> nat" where
  "btts_count games = length (filter (\<lambda>r. FTHG r > 0 \<and> FTAG r > 0) games)"

text \<open>\<open>set(df['HomeTeam'].unique()) | set(df['AwayTeam'].unique())\<close>.\<close>

definition all_teams :: "dataframe \<Rightarrow> string set" where
  "all_teams df = set (map HomeTeam df) \<union> set (map AwayTeam df)"

section \<open>Inference-time rolling statistics\<close>

record team_stats =
  form :: int
  avg_goals :: real
  avg_conceded :: real
  btts_rate :: real

definition default_stats :: team_stats where
  "default_stats = \<lparr>form = 7, avg_goals = 1.3, avg_conceded = 1.2, btts_rate = 50.0\<rparr>"

text \<open>The body of the form loop, shared word for word by both \<open>get_team_stats\<close>:
  the team's side in this very row decides which result earns the points.\<close>

definition form_step :: "string \<Rightarrow> int \<Rightarrow> match_row \<Rightarrow> int" where
  "form_step team_name fm row =
     (if HomeTeam row = team_name then
        (if FTR row = ''H'' then fm + 3 else if FTR row = ''D'' then fm + 1 else fm)
      else
        (if FTR row = ''A'' then fm + 3 else if FTR row = ''D'' then fm + 1 else fm))"

definition form_points :: "string \<Rightarrow> dataframe \<Rightarrow> int" where
  "form_points team_name venue_games = foldl (form_step team_name) 0 venue_games"

text \<open>What one row adds to the form.\<close>

definition match_points :: "string \<Rightarrow> match_row \<Rightarrow> int" where
  "match_points team_name row = form_step team_name 0 row"

text \<open>The second half of both \<open>get_team_stats\<close> (venue-specific goals), also shared
  word for word.\<close>

definition venue_goal_stats :: "dataframe \<Rightarrow> string \<Rightarrow> bool \<Rightarrow> int \<Rightarrow> int \<Rightarrow> team_stats" where
  "venue_goal_stats df team_name is_home n_games fm =
     (if is_home then
        (let home_games = df_tail n_games (home_rows df team_name) in
         if length home_games > 0 then
           \<lparr>form = fm,
            avg_goals = series_mean (map FTHG home_games),
            avg_conceded = series_mean (map FTAG home_games),
            btts_rate = (real (btts_count home_games) / real (length home_games)) * 100\<rparr>
         else \<lparr>form = fm, avg_goals = 1.3, avg_conceded = 1.2, btts_rate = 50.0\<rparr>)
      else
        (let away_games = df_tail n_games (away_rows df team_name) in
         if length away_games > 0 then
           \<lparr>form = fm,
            avg_goals = series_mean (map FTAG away_games),
            avg_conceded = series_mean (map FTHG away_games),
            btts_rate = (real (btts_count away_games) / real (length away_games)) * 100\<rparr>
         else \<lparr>form = fm, avg_goals = 1.1, avg_conceded = 1.4, btts_rate = 50.0\<rparr>))"

subsection \<open>predict_glitch.get_team_stats\<close>

text \<open>The window \<open>venue_games\<close> of \<open>predict_glitch.get_team_stats\<close>: the venue's
  rows, or every row of the team when the venue has fewer than \<open>n_games\<close>.\<close>

definition pg_venue_games :: "dataframe \<Rightarrow> string \<Rightarrow> bool \<Rightarrow> int \<Rightarrow> dataframe" where
  "pg_venue_games df team_name is_home n_games =
     (if is_home then
        (let venue_games = df_tail n_games (home_rows df team_name) in
         if int (length venue_games) < n_games
         then df_tail n_games (all_rows df team_name) else venue_games)
      else
        (let venue_games = df_tail n_games (away_rows df team_name) in
         if int (length venue_games) < n_games
         then df_tail n_games (all_rows df team_name) else venue_games))"

definition pg_get_team_stats :: "dataframe \<Rightarrow> string \<Rightarrow> bool \<Rightarrow> int \<Rightarrow> team_stats" where
  "pg_get_team_stats df team_name is_home n_games =
     (let venue_games = pg_venue_games df team_name is_home n_games in
      if length venue_games = 0 then default_stats
      else venue_goal_stats df team_name is_home n_games
             (form_points team_name venue_games))"

subsection \<open>glitch_engine.get_team_stats\<close>

text \<open>The engine's window falls back to every row of the team when the venue has fewer
  than three rows, whatever \<open>n_games\<close> is.\<close>

definition ge_venue_games :: "dataframe \<Rightarrow> string \<Rightarrow> bool \<Rightarrow> int \<Rightarrow> dataframe" where
  "ge_venue_games df team_name is_home n_games =
     (let venue_games =
            (if is_home then df_tail n_games (home_rows df team_name)
             else df_tail n_games (away_rows df team_name))
      in if length venue_games < 3
         then df_tail n_games (all_rows df team_name) else venue_games)"

text \<open>\<open>df\<close> is \<open>None\<close> when the history file is missing.\<close>

definition ge_get_team_stats :: "dataframe option \<Rightarrow> string \<Rightarrow> bool \<Rightarrow> int \<Rightarrow> team_stats" where
  "ge_get_team_stats dfo team_name is_home n_games =
     (case dfo of
        None \<Rightarrow> default_stats
      | Some df \<Rightarrow>
          (let venue_games = ge_venue_games df team_name is_home n_games in
           if length venue_games = 0 then default_stats
           else venue_goal_stats df team_name is_home n_games
                  (form_points team_name venue_games)))"

section \<open>Training-time rolling statistics (train_glitch.calculate_rolling_stats)\<close>

text \<open>The seven \<open>defaultdict(list)\<close> tracking dictionaries: a missing key reads as
  the empty list.\<close>

record tracking =
  team_results :: "string \<Rightarrow> int list"
  home_goals :: "string \<Rightarrow> int list"
  home_conceded :: "string \<Rightarrow> int list"
  away_goals :: "string \<Rightarrow> int list"
  away_conceded :: "string \<Rightarrow> int list"
  home_btts :: "string \<Rightarrow> int list"
  away_btts :: "string \<Rightarrow> int list"

definition empty_tracking :: tracking where
  "empty_tracking =
     \<lparr>team_results = (\<lambda>_. []), home_goals = (\<lambda>_. []), home_conceded = (\<lambda>_. []),
      away_goals = (\<lambda>_. []), away_conceded = (\<lambda>_. []),
      home_btts = (\<lambda>_. []), away_btts = (\<lambda>_. [])\<rparr>"

text \<open>\<open>d[k].append(v)\<close>.\<close>

definition append_to :: "(string \<Rightarrow> int list) \<Rightarrow> string \<Rightarrow> int \<Rightarrow> (string \<Rightarrow> int list)" where
  "append_to d k v = d(k := d k @ [v])"

text \<open>The eight new columns of a row; \<open>None\<close> is the \<open>NaN\<close> they are initialised
  with.\<close>

record feature_row =
  HomeTeam_Form :: "real option"
  AwayTeam_Form :: "real option"
  Home_Avg_Goals :: "real option"
  Away_Avg_Goals :: "real option"
  Home_Avg_Conceded :: "real option"
  Away_Avg_Conceded :: "real option"
  Home_BTTS_Rate :: "real option"
  Away_BTTS_Rate :: "real option"

text \<open>\<open>np.mean\<close> of a list of integers: \<open>NaN\<close> on the empty list.\<close>

definition np_mean :: "int list \<Rightarrow> real option" where
  "np_mean xs = (if xs = [] then None else Some (real_of_int (sum_list xs) / real (length xs)))"

text \<open>The first half of the loop body: the stats before this match.\<close>

definition row_features :: "int \<Rightarrow> tracking \<Rightarrow> match_row \<Rightarrow> feature_row" where
  "row_features n_games tr row =
     (let home_team = HomeTeam row; away_team = AwayTeam row;
          home_ok = (int (length (home_goals tr home_team)) \<ge> n_games);
          away_ok = (int (length (away_goals tr away_team)) \<ge> n_games)
      in \<lparr>HomeTeam_Form =
             (if int (length (team_results tr home_team)) \<ge> n_games
              then Some (real_of_int (sum_list (py_last n_games (team_results tr home_team))))
              else None),
           AwayTeam_Form =
             (if int (length (team_results tr away_team)) \<ge> n_games
              then Some (real_of_int (sum_list (py_last n_games (team_results tr away_team))))
              else None),
           Home_Avg_Goals =
             (if home_ok then np_mean (py_last n_games (home_goals tr home_team)) else None),
           Away_Avg_Goals =
             (if away_ok then np_mean (py_last n_games (away_goals tr away_team)) else None),
           Home_Avg_Conceded =
             (if home_ok then np_mean (py_last n_games (home_conceded tr home_team)) else None),
           Away_Avg_Conceded =
             (if away_ok then np_mean (py_last n_games (away_conceded tr away_team)) else None),
           Home_BTTS_Rate =
             (if home_ok
              then map_option (\<lambda>m. m * 100) (np_mean (py_last n_games (home_btts tr home_team)))
              else None),
           Away_BTTS_Rate =
             (if away_ok
              then map_option (\<lambda>m. m * 100) (np_mean (py_last n_games (away_btts tr away_team)))
              else None)\<rparr>)"

text \<open>The second half of the loop body: the appends, in the source's order (the second
  append of a pair sees the first).\<close>

definition update_tracking :: "tracking \<Rightarrow> match_row \<Rightarrow> tracking" where
  "update_tracking tr row =
     (let home_team = HomeTeam row; away_team = AwayTeam row;
          ftr = FTR row; fthg = FTHG row; ftag = FTAG row;
          btts_occurred = (if fthg > 0 \<and> ftag > 0 then 1 else 0)
      in \<lparr>team_results =
             (if ftr = ''H''
              then append_to (append_to (team_results tr) home_team 3) away_team 0
              else if ftr = ''D''
              then append_to (append_to (team_results tr) home_team 1) away_team 1
              else append_to (append_to (team_results tr) home_team 0) away_team 3),
           home_goals = append_to (home_goals tr) home_team fthg,
           home_conceded = append_to (home_conceded tr) home_team ftag,
           away_goals = append_to (away_goals tr) away_team ftag,
           away_conceded = append_to (away_conceded tr) away_team fthg,
           home_btts = append_to (home_btts tr) home_team btts_occurred,
           away_btts = append_to (away_btts tr) away_team btts_occurred\<rparr>)"

text \<open>\<open>for idx, row in df.iterrows()\<close>: the row's features from the tracking state, then
  the update.\<close>

fun rolling_loop :: "int \<Rightarrow> tracking \<Rightarrow> dataframe \<Rightarrow> feature_row list" where
  "rolling_loop n_games tr [] = []"
| "rolling_loop n_games tr (row # rows) =
     row_features n_games tr row # rolling_loop n_games (update_tracking tr row) rows"

definition calculate_rolling_stats :: "dataframe \<Rightarrow> int \<Rightarrow> feature_row list" where
  "calculate_rolling_stats df n_games = rolling_loop n_games empty_tracking df"

text \<open>The tracking state once the given rows have been processed.\<close>

definition tracking_after :: "dataframe \<Rightarrow> tracking" where
  "tracking_after rows = foldl update_tracking empty_tracking rows"

section \<open>Squad intelligence (scout)\<close>

text \<open>Strings are byte strings here; \<open>str.lower()\<close> is modelled on the ASCII letters,
  which is all the team and player tables below contain.\<close>

definition lower_char :: "char \<Rightarrow> char" where
  "lower_char c =
     (let k = (of_char c :: nat) in if 65 \<le> k \<and> k \<le> 90 then char_of (k + 32) else c)"

definition lower :: "string \<Rightarrow> string" where
  "lower s = map lower_char s"

text \<open>\<open>s.startswith(p)\<close> and the substring test \<open>needle in hay\<close>.\<close>

fun starts_with :: "string \<Rightarrow> string \<Rightarrow> bool" where
  "starts_with s [] = True"
| "starts_with [] (p # ps) = False"
| "starts_with (c # cs) (p # ps) = (c = p \<and> starts_with cs ps)"

fun str_in :: "string \<Rightarrow> string \<Rightarrow> bool" where
  "str_in needle [] = (needle = [])"
| "str_in needle (c # cs) = (starts_with (c # cs) needle \<or> str_in needle cs)"

text \<open>An entry of the list \<open>get_injuries\<close> returns (\<open>type\<close> is the dict's key
  \<open>'type'\<close>).\<close>

record injury =
  player_name :: string
  player_id :: "int option"
  reason :: string
  injury_type :: string

text \<open>The two f-strings appended to \<open>reasons\<close>, by the values they interpolate: the
  key-player line carries the player's name, the other line the name and the reason.\<close>

datatype reason_line = KeyPlayerOut string | PlayerOut string string

definition key_players_db :: "(int \<times> string list) list" where
  "key_players_db =
     [(42, [''Saka'', ''Saliba'', ''Odegaard'', ''Rice'', ''Havertz'']),
      (49, [''Palmer'', ''Jackson'', ''Caicedo'', ''Reece James'']),
      (50, [''Haaland'', ''De Bruyne'', ''Rodri'', ''Dias'']),
      (40, [''Salah'', ''Van Dijk'', ''Alexander-Arnold'', ''Mac Allister'']),
      (33, [''Fernandes'', ''Rashford'', ''Casemiro'', ''Martinez'']),
      (47, [''Son'', ''Maddison'', ''Romero'', ''Van de Ven''])]"

record squad_strength =
  score :: int
  injuries_count :: nat
  reasons :: "reason_line list"
  status :: string

text \<open>The body of \<open>for injury in injuries\<close>, on the pair (score, reasons).\<close>

definition is_key_player :: "string list \<Rightarrow> string \<Rightarrow> bool" where
  "is_key_player team_key_players name =
     list_ex (\<lambda>kp. str_in (lower kp) (lower name)) team_key_players"

definition injury_step :: "string list \<Rightarrow> int \<times> reason_line list \<Rightarrow> injury \<Rightarrow> int \<times> reason_line list" where
  "injury_step team_key_players acc injury =
     (let name = player_name injury in
      if is_key_player team_key_players name
      then (fst acc - 15, snd acc @ [KeyPlayerOut name])
      else (fst acc - 3, snd acc @ [PlayerOut name (reason injury)]))"

definition calculate_squad_strength :: "int \<Rightarrow> injury list \<Rightarrow> squad_strength" where
  "calculate_squad_strength team_id injuries =
     (let team_key_players = (case map_of key_players_db team_id of None \<Rightarrow> [] | Some ps \<Rightarrow> ps);
          acc = foldl (injury_step team_key_players) (100, []) injuries;
          sc = max 0 (fst acc)
      in \<lparr>score = sc,
           injuries_count = length injuries,
           reasons = take 5 (snd acc),
           status = (if sc \<ge> 85 then ''STRONG'' else (if sc \<ge> 70 then ''MODERATE'' else ''WEAK''))\<rparr>)"

text \<open>One side of the team news: \<open>result['home']\<close> or \<open>result['away']\<close>. The key
  \<open>injuries_count\<close> is only set when the team id is given.\<close>

record squad_side =
  side_score :: int
  side_status :: string
  side_injuries :: "reason_line list"
  side_injuries_count :: "nat option"

text \<open>The skip reason is the f-string's two values: the weak side and the minimum score.\<close>

record squad_news =
  home :: squad_side
  away :: squad_side
  lineups_available :: bool
  should_skip :: bool
  skip_reason :: "(string \<times> int) option"

text \<open>Python truth of an optional team id: \<open>None\<close> and \<open>0\<close> are false.\<close>

definition truthy :: "int option \<Rightarrow> bool" where
  "truthy x = (case x of None \<Rightarrow> False | Some i \<Rightarrow> i \<noteq> 0)"

text \<open>\<open>get_injuries\<close> calls the football API; it is a parameter here, a function from
  the team id to the list it returns (the empty list when the request fails).\<close>

definition side_news :: "(int \<Rightarrow> injury list) \<Rightarrow> int option \<Rightarrow> squad_side" where
  "side_news get_injuries team_id =
     (if truthy team_id then
        (let strength = calculate_squad_strength (the team_id) (get_injuries (the team_id))
         in \<lparr>side_score = score strength, side_status = status strength,
              side_injuries = reasons strength,
              side_injuries_count = Some (injuries_count strength)\<rparr>)
      else \<lparr>side_score = 100, side_status = ''UNKNOWN'', side_injuries = [],
             side_injuries_count = None\<rparr>)"

text \<open>\<open>get_team_news\<close> as the predictor calls it, with no \<open>fixture_id\<close> (the line-up
  branch is skipped).\<close>

definition get_team_news :: "(int \<Rightarrow> injury list) \<Rightarrow> int option \<Rightarrow> int option \<Rightarrow> squad_news" where
  "get_team_news get_injuries home_team_id away_team_id =
     (let h = side_news get_injuries home_team_id;
          a = side_news get_injuries away_team_id;
          min_score = min (side_score h) (side_score a)
      in if min_score < 70
         then \<lparr>home = h, away = a, lineups_available = False, should_skip = True,
                skip_reason =
                  Some (if side_score h < side_score a then ''Home'' else ''Away'', min_score)\<rparr>
         else \<lparr>home = h, away = a, lineups_available = False, should_skip = False,
                skip_reason = None\<rparr>)"

definition TEAM_IDS :: "(string \<times> int) list" where
  "TEAM_IDS =
     [(''Arsenal'', 42), (''Aston Villa'', 66), (''Bournemouth'', 35), (''Brentford'', 55),
      (''Brighton'', 51), (''Chelsea'', 49), (''Crystal Palace'', 52), (''Everton'', 45),
      (''Fulham'', 36), (''Ipswich'', 57), (''Leicester'', 46), (''Liverpool'', 40),
      (''Man City'', 50), (''Man United'', 33), (''Manchester City'', 50),
      (''Manchester United'', 33), (''Newcastle'', 34), (''Nottingham Forest'', 65),
      (''Nott'' @ [CHR 0x27] @ ''m Forest'', 65), (''Southampton'', 41), (''Tottenham'', 47),
      (''West Ham'', 48), (''Wolves'', 39)]"

definition get_team_id :: "string \<Rightarrow> int option" where
  "get_team_id team_name =
     (case map_of TEAM_IDS team_name of
        Some tid \<Rightarrow> Some tid
      | None \<Rightarrow>
          map_option snd
            (find (\<lambda>(name, tid). str_in (lower team_name) (lower name)
                                 \<or> str_in (lower name) (lower team_name)) TEAM_IDS))"

section \<open>Model bank and prediction results\<close>

text \<open>
  The three classifiers are external (pickled scikit-learn models). A model is the function
  from the feature row \<open>X\<close> to the probability row \<open>predict_proba(X)[0]\<close>, with the arity
  the code indexes: three classes for the result model, two for the others. Nothing is
  assumed about the numbers they return. \<open>features.json\<close> gives the feature column
  names and the recorded accuracies. \<open>load_models\<close> returns \<open>(None, None)\<close> when a
  file is missing: the bank is then \<open>None\<close>.
\<close>

record models =
  win_model :: "real list \<Rightarrow> real \<times> real \<times> real"
  goals_model :: "real list \<Rightarrow> real \<times> real"
  btts_model :: "real list \<Rightarrow> real \<times> real"

record config =
  features :: "string list"
  win_accuracy :: real
  goals_accuracy :: real
  btts_accuracy :: real

type_synonym bank = "(models \<times> config) option"

datatype py_error = KeyError

text \<open>The dict built from the two stats objects, in the source's key order, and the
  column selection \<open>pd.DataFrame([features])[feature_cols]\<close>, which raises
  \<open>KeyError\<close> on a column the dict does not have.\<close>

definition feature_dict :: "team_stats \<Rightarrow> team_stats \<Rightarrow> (string \<times> real) list" where
  "feature_dict home_stats away_stats =
     [(''HomeTeam_Form'', real_of_int (form home_stats)),
      (''AwayTeam_Form'', real_of_int (form away_stats)),
      (''Home_Avg_Goals'', avg_goals home_stats),
      (''Away_Avg_Goals'', avg_goals away_stats),
      (''Home_Avg_Conceded'', avg_conceded home_stats),
      (''Away_Avg_Conceded'', avg_conceded away_stats),
      (''Home_BTTS_Rate'', btts_rate home_stats),
      (''Away_BTTS_Rate'', btts_rate away_stats)]"

fun select_columns :: "(string \<times> real) list \<Rightarrow> string list \<Rightarrow> py_error + real list" where
  "select_columns d [] = Inr []"
| "select_columns d (c # cs) =
     (case map_of d c of
        None \<Rightarrow> Inl KeyError
      | Some v \<Rightarrow> (case select_columns d cs of Inl e \<Rightarrow> Inl e | Inr vs \<Rightarrow> Inr (v # vs)))"

definition prepare_features :: "team_stats \<Rightarrow> team_stats \<Rightarrow> string list \<Rightarrow> py_error + real list" where
  "prepare_features home_stats away_stats feature_cols =
     select_columns (feature_dict home_stats away_stats) feature_cols"

text \<open>\<open>max(win_proba)\<close> and \<open>np.argmax(win_proba)\<close> (the first index of a maximum).\<close>

definition max3 :: "real \<times> real \<times> real \<Rightarrow> real" where
  "max3 p = (case p of (a, b, c) \<Rightarrow> max a (max b c))"

definition argmax3 :: "real \<times> real \<times> real \<Rightarrow> nat" where
  "argmax3 p = (case p of (a, b, c) \<Rightarrow>
     if b \<le> a \<and> c \<le> a then 0 else if c \<le> b then 1 else 2)"

definition max2 :: "real \<times> real \<Rightarrow> real" where
  "max2 p = (case p of (a, b) \<Rightarrow> max a b)"

text \<open>Python's \<open>max(xs, key=...)\<close> on a non-empty list \<open>x # xs\<close>: a later item replaces
  the best one only when its key is strictly greater.\<close>

definition py_max_key :: "('a \<Rightarrow> real) \<Rightarrow> 'a \<Rightarrow> 'a list \<Rightarrow> 'a" where
  "py_max_key key x xs = foldl (\<lambda>best y. if key best < key y then y else best) x xs"

text \<open>
  One market of a result. In \<open>predict_glitch\<close> the keys are \<open>probabilities\<close>,
  \<open>best_prob\<close> and \<open>best_bet\<close> (the probabilities are repeated under short keys, and the
  result market also carries the label of \<open>model.predict\<close>; neither is modelled). In
  \<open>glitch_engine\<close> the probabilities are keys of the market itself and the other two
  keys are \<open>confidence\<close> and \<open>best\<close>. The probabilities are kept in the dict's order.
\<close>

record market =
  probabilities :: "(string \<times> real) list"
  best_prob :: real
  best_bet :: string

record predictions =
  win :: market
  goals :: market
  btts :: market

record safest_glitch =
  market :: string
  bet :: string
  confidence :: real

definition all_bets :: "string \<Rightarrow> string \<Rightarrow> string \<Rightarrow> predictions \<Rightarrow> (string \<times> string \<times> real) list" where
  "all_bets w g b preds =
     [(w, best_bet (win preds), best_prob (win preds)),
      (g, best_bet (goals preds), best_prob (goals preds)),
      (b, best_bet (btts preds), best_prob (btts preds))]"

text \<open>\<open>safest = max(all_bets, key=lambda x: x[2])\<close>, with the market names of the
  calling module.\<close>

definition find_safest :: "string \<Rightarrow> string \<Rightarrow> string \<Rightarrow> predictions \<Rightarrow> safest_glitch" where
  "find_safest w g b preds =
     (let bets = all_bets w g b preds;
          safest = py_max_key (\<lambda>x. snd (snd x)) (hd bets) (tl bets)
      in \<lparr>market = fst safest, bet = fst (snd safest), confidence = snd (snd safest)\<rparr>)"

record prediction =
  home_team :: string
  away_team :: string
  predictions :: predictions
  safest_glitch :: safest_glitch
  home_stats :: team_stats
  away_stats :: team_stats

section \<open>predict_glitch.predict_all_markets\<close>

record pg_prediction = prediction +
  skipped :: bool
  model_accuracies :: "(string \<times> real) list"
  squad_news :: "squad_news option"

text \<open>The three shapes of the returned dict: the error message; the skip (home team, away
  team, skip reason, squad news, home stats, away stats); the prediction.\<close>

datatype pg_result =
    Error string
  | Skipped string string "(string \<times> int) option" squad_news team_stats team_stats
  | Predicted pg_prediction

definition pg_win_labels :: "string list" where
  "pg_win_labels = [''Home Win'', ''Draw'', ''Away Win'']"

definition pg_predictions :: "models \<Rightarrow> real list \<Rightarrow> predictions" where
  "pg_predictions ms X =
     (let win_proba = win_model ms X;
          goals_proba = goals_model ms X;
          btts_proba = btts_model ms X
      in \<lparr>win =
             \<lparr>probabilities =
                [(''Home Win'', fst win_proba * 100),
                 (''Draw'', fst (snd win_proba) * 100),
                 (''Away Win'', snd (snd win_proba) * 100)],
              best_prob = max3 win_proba * 100,
              best_bet = pg_win_labels ! argmax3 win_proba\<rparr>,
           goals =
             \<lparr>probabilities =
                [(''Under 2.5'', fst goals_proba * 100), (''Over 2.5'', snd goals_proba * 100)],
              best_prob = max2 goals_proba * 100,
              best_bet = (if snd goals_proba > fst goals_proba then ''Over 2.5'' else ''Under 2.5'')\<rparr>,
           btts =
             \<lparr>probabilities =
                [(''No BTTS'', fst btts_proba * 100), (''BTTS'', snd btts_proba * 100)],
              best_prob = max2 btts_proba * 100,
              best_bet = (if snd btts_proba > fst btts_proba then ''BTTS'' else ''No BTTS'')\<rparr>\<rparr>)"

text \<open>Lines 204 to 285: features, the three models, the safest glitch, the result.\<close>

definition pg_run_models :: "models \<Rightarrow> config \<Rightarrow> string \<Rightarrow> string \<Rightarrow> team_stats \<Rightarrow> team_stats
    \<Rightarrow> squad_news option \<Rightarrow> py_error + pg_result" where
  "pg_run_models ms cfg home_team_name away_team_name hstats astats news =
     (case prepare_features hstats astats (features cfg) of
        Inl e \<Rightarrow> Inl e
      | Inr X \<Rightarrow>
          (let preds = pg_predictions ms X in
           Inr (Predicted
             \<lparr>home_team = home_team_name, away_team = away_team_name,
              predictions = preds,
              safest_glitch = find_safest ''win'' ''goals'' ''btts'' preds,
              home_stats = hstats, away_stats = astats,
              skipped = False,
              model_accuracies =
                [(''win'', win_accuracy cfg), (''goals'', goals_accuracy cfg),
                 (''btts'', btts_accuracy cfg)],
              squad_news = news\<rparr>)))"

text \<open>
  \<open>predict_all_markets(home_team, away_team, check_squad)\<close>. The loaded bank, the
  loaded history and the injuries API are parameters. The squad check runs
  \<open>get_team_news\<close> when one of the two team ids is known.
\<close>

definition predict_all_markets :: "bank \<Rightarrow> dataframe option \<Rightarrow> (int \<Rightarrow> injury list)
    \<Rightarrow> string \<Rightarrow> string \<Rightarrow> bool \<Rightarrow> py_error + pg_result" where
  "predict_all_markets bnk dfo get_injuries home_team_name away_team_name check_squad =
     (case bnk of
        None \<Rightarrow> Inr (Error ''Models not loaded. Run train_glitch.py first.'')
      | Some (ms, cfg) \<Rightarrow>
     (case dfo of
        None \<Rightarrow> Inr (Error ''Historical data not found.'')
      | Some df \<Rightarrow>
          (let hstats = pg_get_team_stats df home_team_name True 5;
               astats = pg_get_team_stats df away_team_name False 5;
               home_id = get_team_id home_team_name;
               away_id = get_team_id away_team_name;
               news = (if check_squad \<and> (truthy home_id \<or> truthy away_id)
                       then Some (get_team_news get_injuries home_id away_id) else None)
           in case news of
                Some sn \<Rightarrow>
                  if should_skip sn
                  then Inr (Skipped home_team_name away_team_name (skip_reason sn) sn hstats astats)
                  else pg_run_models ms cfg home_team_name away_team_name hstats astats news
              | None \<Rightarrow>
                  pg_run_models ms cfg home_team_name away_team_name hstats astats news)))"

text \<open>The market breakdown of a result, when it has one.\<close>

definition result_predictions :: "pg_result \<Rightarrow> predictions option" where
  "result_predictions r =
     (case r of Predicted p \<Rightarrow> Some (predictions p) | _ \<Rightarrow> None)"

text \<open>
  The command-line entry point \<open>main()\<close> of \<open>predict_glitch\<close>, for two team arguments
  and a loaded history: it validates both teams against the known set, prints an error
  and the team list for an unknown one, and only then predicts.
\<close>

datatype cli_outcome =
    TeamNotFound string "string set"
  | Printed "py_error + pg_result"

definition main :: "bank \<Rightarrow> dataframe \<Rightarrow> (int \<Rightarrow> injury list) \<Rightarrow> string \<Rightarrow> string \<Rightarrow> cli_outcome" where
  "main bnk df get_injuries home_team_name away_team_name =
     (if home_team_name \<notin> all_teams df then TeamNotFound home_team_name (all_teams df)
      else if away_team_name \<notin> all_teams df then TeamNotFound away_team_name (all_teams df)
      else Printed (predict_all_markets bnk (Some df) get_injuries
                      home_team_name away_team_name True))"

section \<open>glitch_engine.predict_match_ml and the heuristic fallback\<close>

record ge_prediction = prediction +
  match_title :: string
  using_ml :: bool

definition ge_win_labels :: "string list" where
  "ge_win_labels = [''Home Win'', ''Draw'', ''Away Win'']"

definition ge_predictions :: "models \<Rightarrow> real list \<Rightarrow> predictions" where
  "ge_predictions ms X =
     (let win_proba = win_model ms X;
          goals_proba = goals_model ms X;
          btts_proba = btts_model ms X
      in \<lparr>win =
             \<lparr>probabilities =
                [(''home'', fst win_proba * 100),
                 (''draw'', fst (snd win_proba) * 100),
                 (''away'', snd (snd win_proba) * 100)],
              best_prob = max3 win_proba * 100,
              best_bet = ge_win_labels ! argmax3 win_proba\<rparr>,
           goals =
             \<lparr>probabilities =
                [(''under'', fst goals_proba * 100), (''over'', snd goals_proba * 100)],
              best_prob = max2 goals_proba * 100,
              best_bet = (if snd goals_proba > fst goals_proba then ''Over 2.5'' else ''Under 2.5'')\<rparr>,
           btts =
             \<lparr>probabilities =
                [(''no'', fst btts_proba * 100), (''yes'', snd btts_proba * 100)],
              best_prob = max2 btts_proba * 100,
              best_bet = (if snd btts_proba > fst btts_proba then ''BTTS Yes'' else ''BTTS No'')\<rparr>\<rparr>)"

text \<open>The fallback. Without a history the home side gets the neutral stats and the away
  side its own literal; \<open>/\<close> is Python's true division.\<close>

definition predict_match_heuristic :: "dataframe option \<Rightarrow> string \<Rightarrow> string \<Rightarrow> ge_prediction" where
  "predict_match_heuristic dfo home_team_name away_team_name =
     (let hstats = (if dfo \<noteq> None then ge_get_team_stats dfo home_team_name True 5
                    else \<lparr>form = 7, avg_goals = 1.3, avg_conceded = 1.2, btts_rate = 50\<rparr>);
          astats = (if dfo \<noteq> None then ge_get_team_stats dfo away_team_name False 5
                    else \<lparr>form = 7, avg_goals = 1.1, avg_conceded = 1.4, btts_rate = 50\<rparr>);
          total_form0 = form hstats + form astats;
          total_form = (if total_form0 = 0 then 1 else total_form0);
          home_strength = real_of_int (form hstats) / real_of_int total_form;
          away_strength = real_of_int (form astats) / real_of_int total_form;
          preds =
            \<lparr>win =
               \<lparr>probabilities =
                  [(''home'', home_strength * 100 * 1.1),
                   (''draw'', 25),
                   (''away'', away_strength * 100 * 0.9)],
                best_prob = max home_strength away_strength * 100,
                best_bet = (if home_strength > away_strength then ''Home Win'' else ''Away Win'')\<rparr>,
             goals =
               \<lparr>probabilities = [(''over'', 50), (''under'', 50)],
                best_prob = 52,
                best_bet = (if avg_goals hstats + avg_goals astats > 2.5
                            then ''Over 2.5'' else ''Under 2.5'')\<rparr>,
             btts =
               \<lparr>probabilities =
                  [(''yes'', (btts_rate hstats + btts_rate astats) / 2),
                   (''no'', 100 - (btts_rate hstats + btts_rate astats) / 2)],
                best_prob = 55,
                best_bet = (if btts_rate hstats > 50 then ''BTTS Yes'' else ''BTTS No'')\<rparr>\<rparr>
      in \<lparr>home_team = home_team_name, away_team = away_team_name,
           predictions = preds,
           safest_glitch =
             \<lparr>market = ''Match Result'', bet = best_bet (win preds),
              confidence = best_prob (win preds)\<rparr>,
           home_stats = hstats, away_stats = astats,
           match_title = home_team_name @ '' vs '' @ away_team_name,
           using_ml = False\<rparr>)"

definition predict_match_ml :: "bank \<Rightarrow> dataframe option \<Rightarrow> string \<Rightarrow> string \<Rightarrow> py_error + ge_prediction" where
  "predict_match_ml bnk dfo home_team_name away_team_name =
     (case bnk of
        None \<Rightarrow> Inr (predict_match_heuristic dfo home_team_name away_team_name)
      | Some (ms, cfg) \<Rightarrow>
          (let hstats = ge_get_team_stats dfo home_team_name True 5;
               astats = ge_get_team_stats dfo away_team_name False 5
           in case select_columns (feature_dict hstats astats) (features cfg) of
                Inl e \<Rightarrow> Inl e
              | Inr X \<Rightarrow>
                  (let preds = ge_predictions ms X in
                   Inr \<lparr>home_team = home_team_name, away_team = away_team_name,
                        predictions = preds,
                        safest_glitch = find_safest ''Match Result'' ''Goals'' ''BTTS'' preds,
                        home_stats = hstats, away_stats = astats,
                        match_title = home_team_name @ '' vs '' @ away_team_name,
                        using_ml = True\<rparr>)))"


section \<open>Auxiliary notions and example data\<close>

text \<open>What one injury takes off the score, and the key players of a team id (the
  \<open>key_players_db.get(team_id, [])\<close> of \<open>calculate_squad_strength\<close>).\<close>

definition penalty :: "string list \<Rightarrow> injury \<Rightarrow> int" where
  "penalty kps injury = (if is_key_player kps (player_name injury) then 15 else 3)"

definition team_key_players_of :: "int \<Rightarrow> string list" where
  "team_key_players_of team_id =
     (case map_of key_players_db team_id of None \<Rightarrow> [] | Some ps \<Rightarrow> ps)"

text \<open>The scenario of the specification: five Arsenal home games against Chelsea with
  the results H, H, D, A, H.\<close>

definition ex_history :: dataframe where
  "ex_history =
     [\<lparr>HomeTeam = ''Arsenal'', AwayTeam = ''Chelsea'', FTHG = 2, FTAG = 0, FTR = ''H''\<rparr>,
      \<lparr>HomeTeam = ''Arsenal'', AwayTeam = ''Chelsea'', FTHG = 3, FTAG = 1, FTR = ''H''\<rparr>,
      \<lparr>HomeTeam = ''Arsenal'', AwayTeam = ''Chelsea'', FTHG = 1, FTAG = 1, FTR = ''D''\<rparr>,
      \<lparr>HomeTeam = ''Arsenal'', AwayTeam = ''Chelsea'', FTHG = 0, FTAG = 2, FTR = ''A''\<rparr>,
      \<lparr>HomeTeam = ''Arsenal'', AwayTeam = ''Chelsea'', FTHG = 1, FTAG = 0, FTR = ''H''\<rparr>]"

text \<open>A bank whose models return fixed rows, and the schema of the training script.\<close>

definition ex_models :: models where
  "ex_models =
     \<lparr>win_model = (\<lambda>X. (0.5, 0.3, 0.2)), goals_model = (\<lambda>X. (0.4, 0.6)),
      btts_model = (\<lambda>X. (0.6, 0.4))\<rparr>"

definition ex_config :: config where
  "ex_config =
     \<lparr>features = [''HomeTeam_Form'', ''AwayTeam_Form'', ''Home_Avg_Goals'', ''Away_Avg_Goals'',
        ''Home_Avg_Conceded'', ''Away_Avg_Conceded'', ''Home_BTTS_Rate'', ''Away_BTTS_Rate''],
      win_accuracy = 0.5, goals_accuracy = 0.55, btts_accuracy = 0.52\<rparr>"

text \<open>An injuries feed: eleven squad players of Everton (team id 45) are out, nobody
  else is.\<close>

definition ex_knock :: injury where
  "ex_knock =
     \<lparr>player_name = ''A. Player'', player_id = None, reason = ''Knock'',
      injury_type = ''Injury''\<rparr>"

definition ex_api :: "int \<Rightarrow> injury list" where
  "ex_api team_id =
     (if team_id = 45
      then [ex_knock, ex_knock, ex_knock, ex_knock, ex_knock, ex_knock, ex_knock, ex_knock,
            ex_knock, ex_knock, ex_knock]
      else [])"

text \<open>Two injuries at Tottenham (team id 47): a key player and a squad player.\<close>

definition ex_injuries :: "injury list" where
  "ex_injuries =
     [\<lparr>player_name = ''H. Son'', player_id = Some 1, reason = ''Hamstring'',
       injury_type = ''Injury''\<rparr>,
      \<lparr>player_name = ''B. Davies'', player_id = Some 2, reason = ''Red Card'',
       injury_type = ''Suspension''\<rparr>]"

text \<open>The pick \<open>sg\<close> has the greatest of the three best probabilities, and is the first
  market in the order result, goals, BTTS to reach it.\<close>

definition first_max_pick :: "string \<Rightarrow> string \<Rightarrow> string \<Rightarrow> predictions \<Rightarrow> safest_glitch \<Rightarrow> bool" where
  "first_max_pick w g b preds sg =
     (let cw = best_prob (win preds); cg = best_prob (goals preds); cb = best_prob (btts preds);
          top = max cw (max cg cb)
      in confidence sg = top
         \<and> (if cw = top then market sg = w \<and> bet sg = best_bet (win preds)
            else if cg = top then market sg = g \<and> bet sg = best_bet (goals preds)
            else market sg = b \<and> bet sg = best_bet (btts preds)))"

text \<open>What the example bank predicts for Arsenal against Chelsea.\<close>

definition ex_prediction :: pg_prediction where
  "ex_prediction =
     \<lparr>home_team = ''Arsenal'', away_team = ''Chelsea'',
      predictions = pg_predictions ex_models [],
      safest_glitch = \<lparr>market = ''goals'', bet = ''Over 2.5'', confidence = 60\<rparr>,
      home_stats = pg_get_team_stats ex_history ''Arsenal'' True 5,
      away_stats = pg_get_team_stats ex_history ''Chelsea'' False 5,
      skipped = False,
      model_accuracies = [(''win'', 0.5), (''goals'', 0.55), (''btts'', 0.52)],
      squad_news = None\<rparr>"

definition ex_ge_prediction :: ge_prediction where
  "ex_ge_prediction =
     \<lparr>home_team = ''Arsenal'', away_team = ''Chelsea'',
      predictions = ge_predictions ex_models [],
      safest_glitch = \<lparr>market = ''Goals'', bet = ''Over 2.5'', confidence = 60\<rparr>,
      home_stats = default_stats, away_stats = default_stats,
      match_title = ''Arsenal vs Chelsea'',
      using_ml = True\<rparr>"





text \<open>An injuries feed with nobody out, and what the example bank then predicts for
  Everton, a team the scenario history does not know, against Chelsea.\<close>

definition ex_no_injuries :: "int \<Rightarrow> injury list" where
  "ex_no_injuries team_id = []"

definition ex_unknown_prediction :: pg_prediction where
  "ex_unknown_prediction =
     \<lparr>home_team = ''Everton'', away_team = ''Chelsea'',
      predictions = pg_predictions ex_models [],
      safest_glitch = \<lparr>market = ''goals'', bet = ''Over 2.5'', confidence = 60\<rparr>,
      home_stats = default_stats,
      away_stats = pg_get_team_stats ex_history ''Chelsea'' False 5,
      skipped = False,
      model_accuracies = [(''win'', 0.5), (''goals'', 0.55), (''btts'', 0.52)],
      squad_news = Some (get_team_news ex_no_injuries (Some 45) (Some 49))\<rparr>"

text \<open>A history that agrees with the scenario on its first three rows only.\<close>

definition ex_history_alt :: dataframe where
  "ex_history_alt =
     [\<lparr>HomeTeam = ''Arsenal'', AwayTeam = ''Chelsea'', FTHG = 2, FTAG = 0, FTR = ''H''\<rparr>,
      \<lparr>HomeTeam = ''Arsenal'', AwayTeam = ''Chelsea'', FTHG = 3, FTAG = 1, FTR = ''H''\<rparr>,
      \<lparr>HomeTeam = ''Arsenal'', AwayTeam = ''Chelsea'', FTHG = 1, FTAG = 1, FTR = ''D''\<rparr>,
      \<lparr>HomeTeam = ''Chelsea'', AwayTeam = ''Arsenal'', FTHG = 5, FTAG = 0, FTR = ''H''\<rparr>]"

text \<open>What the training loop appends for a row: the both-teams-scored flag, the points of
  the home and of the away side, and the entries that \<open>team_results\<close> gets for a team.\<close>

definition btts_flag :: "match_row \<Rightarrow> int" where
  "btts_flag r = (if FTHG r > 0 \<and> FTAG r > 0 then 1 else 0)"

definition home_points :: "match_row \<Rightarrow> int" where
  "home_points r = (if FTR r = ''H'' then 3 else if FTR r = ''D'' then 1 else 0)"

definition away_points :: "match_row \<Rightarrow> int" where
  "away_points r = (if FTR r = ''H'' then 0 else if FTR r = ''D'' then 1 else 3)"

definition results_of :: "string \<Rightarrow> match_row \<Rightarrow> int list" where
  "results_of t r =
     (if HomeTeam r = t then [home_points r] else [])
     @ (if AwayTeam r = t then [away_points r] else [])"

text \<open>Rows between two different teams with a result H, D or A.\<close>

definition well_formed :: "dataframe \<Rightarrow> bool" where
  "well_formed df =
     (\<forall>r \<in> set df. HomeTeam r \<noteq> AwayTeam r \<and> FTR r \<in> {''H'', ''D'', ''A''})"


section \<open>Properties\<close>

subsection \<open>Rolling statistics at inference time\<close>

lemma df_tail_Nil: "df_tail n [] = []"
  by (simp add: df_tail_def)

lemma df_tail_length: "0 < n \<Longrightarrow> int (length (df_tail n rows)) \<le> n"
  by (simp add: df_tail_def)

lemma absent_rows:
  assumes "team_name \<notin> all_teams df"
  shows "home_rows df team_name = []" "away_rows df team_name = []"
    "all_rows df team_name = []"
  using assms
  by (auto simp: all_teams_def home_rows_def away_rows_def all_rows_def filter_empty_conv)

text \<open>
  C9. A team that is in no row of the history, as home or as away team, gets exactly the
  neutral default stats (form 7, average goals 1.3, average conceded 1.2, BTTS rate 50)
  from both \<open>get_team_stats\<close>, for either venue and any window size.
\<close>

theorem absent_team_default_stats:
  assumes "team_name \<notin> all_teams df"
  shows "pg_get_team_stats df team_name is_home n_games = default_stats
       \<and> ge_get_team_stats (Some df) team_name is_home n_games = default_stats
       \<and> default_stats = \<lparr>form = 7, avg_goals = 1.3, avg_conceded = 1.2, btts_rate = 50.0\<rparr>"
  using absent_rows[OF assms]
  by (simp add: pg_get_team_stats_def ge_get_team_stats_def pg_venue_games_def
      ge_venue_games_def df_tail_Nil default_stats_def)

theorem absent_team_default_stats_witness:
  "''Everton'' \<notin> all_teams ex_history
   \<and> pg_get_team_stats ex_history ''Everton'' True 5 = default_stats
   \<and> ge_get_team_stats (Some ex_history) ''Everton'' False 5 = default_stats"
proof -
  have h: "''Everton'' \<notin> all_teams ex_history"
    by (simp add: all_teams_def ex_history_def)
  show ?thesis
    using h absent_team_default_stats[OF h, of True 5]
      absent_team_default_stats[OF h, of False 5]
    by simp
qed

lemma form_step_shift: "form_step t fm r = fm + match_points t r"
  by (simp add: form_step_def match_points_def)

lemma foldl_form_step: "foldl (form_step t) fm rows = fm + (\<Sum>r\<leftarrow>rows. match_points t r)"
  by (induction rows arbitrary: fm) (simp_all add: form_step_shift)

lemma form_points_sum: "form_points t rows = (\<Sum>r\<leftarrow>rows. match_points t r)"
  by (simp add: form_points_def foldl_form_step)

lemma match_points_cases:
  "match_points t r =
     (if HomeTeam r = t then (if FTR r = ''H'' then 3 else if FTR r = ''D'' then 1 else 0)
      else (if FTR r = ''A'' then 3 else if FTR r = ''D'' then 1 else 0))"
  by (simp add: match_points_def form_step_def)

lemma match_points_range: "0 \<le> match_points t r \<and> match_points t r \<le> 3"
  by (simp add: match_points_cases)

lemma sum_points_bounds:
  "0 \<le> (\<Sum>r\<leftarrow>rows. match_points t r)
   \<and> (\<Sum>r\<leftarrow>rows. match_points t r) \<le> 3 * int (length rows)"
proof (induction rows)
  case Nil
  then show ?case by simp
next
  case (Cons r rows)
  then show ?case using match_points_range[of t r] by simp
qed

lemma venue_goal_stats_form: "form (venue_goal_stats df t h n fm) = fm"
  by (simp add: venue_goal_stats_def Let_def)

lemma pg_form:
  "pg_venue_games df t h n \<noteq> [] \<Longrightarrow>
   form (pg_get_team_stats df t h n) = form_points t (pg_venue_games df t h n)"
  by (simp add: pg_get_team_stats_def Let_def venue_goal_stats_form)

lemma ge_form:
  "ge_venue_games df t h n \<noteq> [] \<Longrightarrow>
   form (ge_get_team_stats (Some df) t h n) = form_points t (ge_venue_games df t h n)"
  by (simp add: ge_get_team_stats_def Let_def venue_goal_stats_form)

lemma pg_window_length: "0 < n \<Longrightarrow> int (length (pg_venue_games df t h n)) \<le> n"
  by (simp add: pg_venue_games_def Let_def df_tail_length)

lemma ge_window_length: "0 < n \<Longrightarrow> int (length (ge_venue_games df t h n)) \<le> n"
  by (simp add: ge_venue_games_def Let_def df_tail_length)

text \<open>
  C8. Let \<open>w\<close> be the window that \<open>get_team_stats\<close> selects for a team and a venue
  (in \<open>predict_glitch\<close> or in \<open>glitch_engine\<close>), with a window size \<open>n > 0\<close>. If
  \<open>w\<close> is not empty, it has at most \<open>n\<close> rows, the returned form is the sum over
  \<open>w\<close> of 3, 1 or 0 points for a win, a draw or a loss of the team on the side it played
  in that row, and the form lies between 0 and \<open>3 n\<close>.
\<close>

theorem form_points_in_range:
  assumes "(w = pg_venue_games df t h n \<and> s = pg_get_team_stats df t h n)
         \<or> (w = ge_venue_games df t h n \<and> s = ge_get_team_stats (Some df) t h n)"
    and "w \<noteq> []" and "0 < n"
  shows "int (length w) \<le> n
       \<and> form s = (\<Sum>r\<leftarrow>w. match_points t r)
       \<and> (\<forall>r \<in> set w. match_points t r =
            (if HomeTeam r = t
             then (if FTR r = ''H'' then 3 else if FTR r = ''D'' then 1 else 0)
             else (if FTR r = ''A'' then 3 else if FTR r = ''D'' then 1 else 0)))
       \<and> 0 \<le> form s \<and> form s \<le> 3 * n"
proof -
  have len: "int (length w) \<le> n"
    using assms(1,3) pg_window_length ge_window_length by blast
  have fm: "form s = (\<Sum>r\<leftarrow>w. match_points t r)"
    using assms(1,2) pg_form ge_form form_points_sum by metis
  have "0 \<le> form s" "form s \<le> 3 * int (length w)"
    using fm sum_points_bounds[where rows = w and t = t] by simp_all
  with len fm show ?thesis by (simp add: match_points_cases)
qed

theorem form_points_in_range_witness:
  "pg_venue_games ex_history ''Arsenal'' True 5 = ex_history
   \<and> ex_history \<noteq> [] \<and> (0::int) < 5
   \<and> form (pg_get_team_stats ex_history ''Arsenal'' True 5) = 10
   \<and> 0 \<le> form (pg_get_team_stats ex_history ''Arsenal'' True 5)
   \<and> form (pg_get_team_stats ex_history ''Arsenal'' True 5) \<le> 3 * 5"
proof -
  have w: "pg_venue_games ex_history ''Arsenal'' True 5 = ex_history"
    by (simp add: pg_venue_games_def home_rows_def all_rows_def df_tail_def ex_history_def)
  have ne: "ex_history \<noteq> []" by (simp add: ex_history_def)
  have sm: "(\<Sum>r\<leftarrow>ex_history. match_points ''Arsenal'' r) = 10"
    by (simp add: ex_history_def match_points_def form_step_def)
  have "form (pg_get_team_stats ex_history ''Arsenal'' True 5)
          = (\<Sum>r\<leftarrow>ex_history. match_points ''Arsenal'' r)
      \<and> 0 \<le> form (pg_get_team_stats ex_history ''Arsenal'' True 5)
      \<and> form (pg_get_team_stats ex_history ''Arsenal'' True 5) \<le> 3 * 5"
    using form_points_in_range[where w = ex_history and df = ex_history and t = "''Arsenal''"
        and h = True and n = 5 and s = "pg_get_team_stats ex_history ''Arsenal'' True 5"] w ne
    by simp
  then show ?thesis using w ne sm by simp
qed

subsection \<open>Squad strength and the squad-risk gate\<close>

lemma injury_step_fst: "fst (injury_step kps acc i) = fst acc - penalty kps i"
  by (simp add: injury_step_def penalty_def Let_def)

lemma foldl_injury_step_fst:
  "fst (foldl (injury_step kps) acc injuries) = fst acc - (\<Sum>i\<leftarrow>injuries. penalty kps i)"
  by (induction injuries arbitrary: acc) (simp_all add: injury_step_fst)

lemma penalty_sum_nonneg: "0 \<le> (\<Sum>i\<leftarrow>injuries. penalty kps i)"
  by (induction injuries) (simp_all add: penalty_def)

lemma score_eq:
  "score (calculate_squad_strength team_id injuries) =
     max 0 (100 - (\<Sum>i\<leftarrow>injuries. penalty (team_key_players_of team_id) i))"
  by (simp add: calculate_squad_strength_def Let_def foldl_injury_step_fst
      team_key_players_of_def)

lemma status_eq:
  "status (calculate_squad_strength team_id injuries) =
     (if score (calculate_squad_strength team_id injuries) \<ge> 85 then ''STRONG''
      else if score (calculate_squad_strength team_id injuries) \<ge> 70 then ''MODERATE''
      else ''WEAK'')"
  by (auto simp: calculate_squad_strength_def Let_def)

text \<open>
  C10. For every team id and injuries list, the score of \<open>calculate_squad_strength\<close> is
  100 minus 15 for each injured key player and 3 for each other injured player, clamped at
  0 from below, so it lies in [0, 100]; the status is STRONG exactly when the score is at
  least 85, MODERATE exactly when it is at least 70 and below 85, WEAK exactly when it is
  below 70.
\<close>

theorem squad_strength_score_and_status:
  fixes team_id :: int and injuries :: "injury list"
  defines "r \<equiv> calculate_squad_strength team_id injuries"
  shows "score r = max 0 (100 - (\<Sum>i\<leftarrow>injuries. penalty (team_key_players_of team_id) i))
       \<and> 0 \<le> score r \<and> score r \<le> 100
       \<and> (status r = ''STRONG'' \<longleftrightarrow> score r \<ge> 85)
       \<and> (status r = ''MODERATE'' \<longleftrightarrow> 70 \<le> score r \<and> score r < 85)
       \<and> (status r = ''WEAK'' \<longleftrightarrow> score r < 70)"
proof -
  have s: "score r = max 0 (100 - (\<Sum>i\<leftarrow>injuries. penalty (team_key_players_of team_id) i))"
    unfolding r_def by (rule score_eq)
  have b: "0 \<le> score r \<and> score r \<le> 100"
    using s penalty_sum_nonneg[of "team_key_players_of team_id" injuries] by simp
  have st: "status r =
      (if score r \<ge> 85 then ''STRONG'' else if score r \<ge> 70 then ''MODERATE'' else ''WEAK'')"
    unfolding r_def by (rule status_eq)
  have t: "(status r = ''STRONG'' \<longleftrightarrow> score r \<ge> 85)
       \<and> (status r = ''MODERATE'' \<longleftrightarrow> 70 \<le> score r \<and> score r < 85)
       \<and> (status r = ''WEAK'' \<longleftrightarrow> score r < 70)"
    by (simp add: st)
  from s b t show ?thesis by blast
qed

lemma lower_simps: "lower [] = []" "lower (c # cs) = lower_char c # lower cs"
  by (simp_all add: lower_def)

lemma kp47: "team_key_players_of 47 = [''Son'', ''Maddison'', ''Romero'', ''Van de Ven'']"
  by (simp add: team_key_players_of_def key_players_db_def)

lemma ex_injuries_penalties:
  "(\<Sum>i\<leftarrow>ex_injuries. penalty (team_key_players_of 47) i) = 18"
  by (simp add: kp47 ex_injuries_def penalty_def is_key_player_def lower_simps lower_char_def)

theorem squad_strength_score_and_status_witness:
  "score (calculate_squad_strength 47 ex_injuries) = 82
   \<and> status (calculate_squad_strength 47 ex_injuries) = ''MODERATE''"
  using squad_strength_score_and_status[of 47 ex_injuries] ex_injuries_penalties
  by simp

lemma side_score_eq:
  "side_score (side_news gi tid) =
     (if truthy tid then score (calculate_squad_strength (the tid) (gi (the tid))) else 100)"
  by (simp add: side_news_def Let_def)

lemma news_home: "home (get_team_news gi hid aid) = side_news gi hid"
  by (simp add: get_team_news_def Let_def)

lemma news_away: "away (get_team_news gi hid aid) = side_news gi aid"
  by (simp add: get_team_news_def Let_def)

lemma should_skip_iff:
  "should_skip (get_team_news gi hid aid) \<longleftrightarrow>
     min (side_score (side_news gi hid)) (side_score (side_news gi aid)) < 70"
  by (simp add: get_team_news_def Let_def)

lemma skip_reason_Some:
  "should_skip (get_team_news gi hid aid) \<Longrightarrow>
   skip_reason (get_team_news gi hid aid) =
     Some (if side_score (side_news gi hid) < side_score (side_news gi aid)
           then ''Home'' else ''Away'',
           min (side_score (side_news gi hid)) (side_score (side_news gi aid)))"
  by (simp add: get_team_news_def Let_def split: if_splits)

lemma predict_skips:
  assumes "check_squad" and "truthy (get_team_id h) \<or> truthy (get_team_id a)"
    and "should_skip (get_team_news gi (get_team_id h) (get_team_id a))"
  shows "predict_all_markets (Some (ms, cfg)) (Some df) gi h a check_squad =
     Inr (Skipped h a (skip_reason (get_team_news gi (get_team_id h) (get_team_id a)))
            (get_team_news gi (get_team_id h) (get_team_id a))
            (pg_get_team_stats df h True 5) (pg_get_team_stats df a False 5))"
  using assms by (simp add: predict_all_markets_def Let_def)

text \<open>
  C7. Let the squad check of \<open>predict_all_markets\<close> run (models and history loaded,
  \<open>check_squad\<close> set, one of the two team ids known) and let \<open>sn\<close> be what
  \<open>get_team_news\<close> reports. Each side's score is the team's squad-strength score (100
  for a team without id); \<open>should_skip\<close> holds exactly when the smaller of the two
  scores is below 70; and when it holds, the predictor returns the skip result, which
  carries the skip reason (the weak side and that minimum) and has no market predictions.
\<close>

theorem squad_gate_skip:
  assumes "check_squad" and "truthy (get_team_id h) \<or> truthy (get_team_id a)"
    and "sn = get_team_news gi (get_team_id h) (get_team_id a)"
    and "r = predict_all_markets (Some (ms, cfg)) (Some df) gi h a check_squad"
  shows "side_score (home sn) =
           (if truthy (get_team_id h)
            then score (calculate_squad_strength (the (get_team_id h)) (gi (the (get_team_id h))))
            else 100)
       \<and> side_score (away sn) =
           (if truthy (get_team_id a)
            then score (calculate_squad_strength (the (get_team_id a)) (gi (the (get_team_id a))))
            else 100)
       \<and> (should_skip sn \<longleftrightarrow> min (side_score (home sn)) (side_score (away sn)) < 70)
       \<and> (should_skip sn \<longrightarrow>
            r = Inr (Skipped h a (skip_reason sn) sn
                      (pg_get_team_stats df h True 5) (pg_get_team_stats df a False 5))
          \<and> skip_reason sn =
              Some (if side_score (home sn) < side_score (away sn) then ''Home'' else ''Away'',
                    min (side_score (home sn)) (side_score (away sn)))
          \<and> (\<forall>res. r = Inr res \<longrightarrow> result_predictions res = None))"
proof -
  have sides: "home sn = side_news gi (get_team_id h)" "away sn = side_news gi (get_team_id a)"
    unfolding assms(3) by (rule news_home, rule news_away)
  have a: "should_skip sn \<longleftrightarrow> min (side_score (home sn)) (side_score (away sn)) < 70"
    unfolding sides unfolding assms(3) by (rule should_skip_iff)
  have b: "r = Inr (Skipped h a (skip_reason sn) sn
                      (pg_get_team_stats df h True 5) (pg_get_team_stats df a False 5))"
    if "should_skip sn"
    using that predict_skips[OF assms(1,2), of gi ms cfg df] unfolding assms(3,4) by simp
  have c: "skip_reason sn =
              Some (if side_score (home sn) < side_score (away sn) then ''Home'' else ''Away'',
                    min (side_score (home sn)) (side_score (away sn)))"
    if "should_skip sn"
    using that skip_reason_Some[of gi "get_team_id h" "get_team_id a"]
    unfolding sides unfolding assms(3) by simp
  have d: "\<forall>res. r = Inr res \<longrightarrow> result_predictions res = None" if "should_skip sn"
    using b[OF that] by (simp add: result_predictions_def)
  have e: "side_score (home sn) =
           (if truthy (get_team_id h)
            then score (calculate_squad_strength (the (get_team_id h)) (gi (the (get_team_id h))))
            else 100)"
    unfolding sides by (rule side_score_eq)
  have f: "side_score (away sn) =
           (if truthy (get_team_id a)
            then score (calculate_squad_strength (the (get_team_id a)) (gi (the (get_team_id a))))
            else 100)"
    unfolding sides by (rule side_score_eq)
  show ?thesis
    apply (intro conjI impI)
    using a b c d e f by simp_all
qed

lemma everton_id: "get_team_id ''Everton'' = Some 45"
  by (simp add: get_team_id_def TEAM_IDS_def)

lemma fulham_id: "get_team_id ''Fulham'' = Some 36"
  by (simp add: get_team_id_def TEAM_IDS_def)

lemma kp45: "team_key_players_of 45 = []"
  by (simp add: team_key_players_of_def key_players_db_def)

lemma kp36: "team_key_players_of 36 = []"
  by (simp add: team_key_players_of_def key_players_db_def)

lemma penalty_no_key_players: "penalty [] i = 3"
  by (simp add: penalty_def is_key_player_def)

lemma ex_home_score: "side_score (side_news ex_api (Some 45)) = 67"
  by (simp add: side_score_eq truthy_def score_eq kp45 penalty_no_key_players ex_api_def)

lemma ex_away_score: "side_score (side_news ex_api (Some 36)) = 100"
  by (simp add: side_score_eq truthy_def score_eq kp36 penalty_no_key_players ex_api_def)

theorem squad_gate_skip_witness:
  "truthy (get_team_id ''Everton'')
   \<and> should_skip (get_team_news ex_api (get_team_id ''Everton'') (get_team_id ''Fulham''))
   \<and> predict_all_markets (Some (ex_models, ex_config)) (Some ex_history) ex_api
        ''Everton'' ''Fulham'' True =
      Inr (Skipped ''Everton'' ''Fulham'' (Some (''Home'', 67))
             (get_team_news ex_api (Some 45) (Some 36))
             (pg_get_team_stats ex_history ''Everton'' True 5)
             (pg_get_team_stats ex_history ''Fulham'' False 5))"
proof -
  have t: "truthy (get_team_id ''Everton'')" by (simp add: everton_id truthy_def)
  have s: "should_skip (get_team_news ex_api (Some 45) (Some 36))"
    by (simp add: should_skip_iff ex_home_score ex_away_score)
  have hs: "side_score (home (get_team_news ex_api (Some 45) (Some 36))) = 67"
    by (simp add: news_home ex_home_score)
  have as: "side_score (away (get_team_news ex_api (Some 45) (Some 36))) = 100"
    by (simp add: news_away ex_away_score)
  show ?thesis
    using squad_gate_skip[where check_squad = True and h = "''Everton''" and a = "''Fulham''"
        and gi = ex_api and ms = ex_models and cfg = ex_config and df = ex_history,
        OF _ _ refl refl] t s hs as
    by (simp add: everton_id fulham_id)
qed

subsection \<open>The safest glitch\<close>

lemma find_safest_first_max: "first_max_pick w g b preds (find_safest w g b preds)"
  by (auto simp: first_max_pick_def find_safest_def all_bets_def py_max_key_def Let_def max_def)

lemma pg_run_models_Predicted:
  "pg_run_models ms cfg h a hs as news = Inr (Predicted p) \<Longrightarrow>
   safest_glitch p = find_safest ''win'' ''goals'' ''btts'' (predictions p)"
  by (auto simp: pg_run_models_def Let_def split: sum.splits)

lemma predict_all_markets_loaded:
  "predict_all_markets (Some (ms, cfg)) (Some df) gi h a c =
     (if c \<and> (truthy (get_team_id h) \<or> truthy (get_team_id a)) then
        (if should_skip (get_team_news gi (get_team_id h) (get_team_id a))
         then Inr (Skipped h a (skip_reason (get_team_news gi (get_team_id h) (get_team_id a)))
                    (get_team_news gi (get_team_id h) (get_team_id a))
                    (pg_get_team_stats df h True 5) (pg_get_team_stats df a False 5))
         else pg_run_models ms cfg h a (pg_get_team_stats df h True 5)
                (pg_get_team_stats df a False 5)
                (Some (get_team_news gi (get_team_id h) (get_team_id a))))
      else pg_run_models ms cfg h a (pg_get_team_stats df h True 5)
             (pg_get_team_stats df a False 5) None)"
  by (cases c; cases "truthy (get_team_id h)"; cases "truthy (get_team_id a)")
    (simp_all add: predict_all_markets_def Let_def)

lemma predict_all_markets_unloaded:
  "predict_all_markets None dfo gi h a c = Inr (Error ''Models not loaded. Run train_glitch.py first.'')"
  "predict_all_markets (Some mc) None gi h a c = Inr (Error ''Historical data not found.'')"
  by (simp_all add: predict_all_markets_def split: prod.splits)

lemma predict_all_markets_Predicted:
  assumes "predict_all_markets bnk dfo gi h a c = Inr (Predicted p)"
  shows "safest_glitch p = find_safest ''win'' ''goals'' ''btts'' (predictions p)"
proof (cases bnk)
  case None
  with assms show ?thesis by (simp add: predict_all_markets_unloaded)
next
  case (Some mc)
  obtain ms cfg where mc: "mc = (ms, cfg)" by (cases mc)
  show ?thesis
  proof (cases dfo)
    case None
    with assms Some show ?thesis by (simp add: predict_all_markets_unloaded)
  next
    case (Some df)
    let ?gate = "c \<and> (truthy (get_team_id h) \<or> truthy (get_team_id a))"
    let ?sn = "get_team_news gi (get_team_id h) (get_team_id a)"
    have eq: "predict_all_markets (Some (ms, cfg)) (Some df) gi h a c = Inr (Predicted p)"
      using assms \<open>bnk = Some mc\<close> mc Some by simp
    show ?thesis
      using eq unfolding predict_all_markets_loaded
      by (auto split: if_splits dest: pg_run_models_Predicted)
  qed
qed

lemma predict_match_ml_unloaded:
  "predict_match_ml None dfo h a = Inr (predict_match_heuristic dfo h a)"
  by (simp add: predict_match_ml_def)

lemma predict_match_ml_loaded:
  "predict_match_ml (Some (ms, cfg)) dfo h a =
     (case select_columns (feature_dict (ge_get_team_stats dfo h True 5)
                             (ge_get_team_stats dfo a False 5)) (features cfg) of
        Inl e \<Rightarrow> Inl e
      | Inr X \<Rightarrow>
          Inr \<lparr>home_team = h, away_team = a,
               predictions = ge_predictions ms X,
               safest_glitch = find_safest ''Match Result'' ''Goals'' ''BTTS'' (ge_predictions ms X),
               home_stats = ge_get_team_stats dfo h True 5,
               away_stats = ge_get_team_stats dfo a False 5,
               match_title = h @ '' vs '' @ a,
               using_ml = True\<rparr>)"
  by (simp add: predict_match_ml_def Let_def split: sum.splits)

lemma heuristic_not_ml: "\<not> using_ml (predict_match_heuristic dfo h a)"
  by (simp add: predict_match_heuristic_def Let_def)

lemma predict_match_ml_using_ml:
  assumes "predict_match_ml bnk dfo h a = Inr q"
  shows "using_ml q \<Longrightarrow>
           safest_glitch q = find_safest ''Match Result'' ''Goals'' ''BTTS'' (predictions q)"
    and "\<not> using_ml q \<Longrightarrow> bnk = None \<and> q = predict_match_heuristic dfo h a"
proof -
  show "safest_glitch q = find_safest ''Match Result'' ''Goals'' ''BTTS'' (predictions q)"
    if "using_ml q"
  proof (cases bnk)
    case None
    with assms have "q = predict_match_heuristic dfo h a"
      by (simp add: predict_match_ml_unloaded)
    with that heuristic_not_ml show ?thesis by blast
  next
    case (Some mc)
    obtain ms cfg where mc: "mc = (ms, cfg)" by (cases mc)
    show ?thesis
      using assms unfolding Some mc predict_match_ml_loaded
      by (auto split: sum.splits)
  qed
  show "bnk = None \<and> q = predict_match_heuristic dfo h a" if "\<not> using_ml q"
  proof (cases bnk)
    case None
    with assms show ?thesis by (simp add: predict_match_ml_unloaded)
  next
    case (Some mc)
    obtain ms cfg where mc: "mc = (ms, cfg)" by (cases mc)
    show ?thesis
      using assms that unfolding Some mc predict_match_ml_loaded
      by (auto split: sum.splits)
  qed
qed

lemma heuristic_safest:
  "market (safest_glitch (predict_match_heuristic dfo h a)) = ''Match Result''
   \<and> bet (safest_glitch (predict_match_heuristic dfo h a))
       = best_bet (win (predictions (predict_match_heuristic dfo h a)))
   \<and> confidence (safest_glitch (predict_match_heuristic dfo h a))
       = best_prob (win (predictions (predict_match_heuristic dfo h a)))"
  by (simp add: predict_match_heuristic_def Let_def)

text \<open>
  C4, as amended. For every result that comes from the trained models (the prediction of
  \<open>predict_all_markets\<close>, and the result of \<open>predict_match_ml\<close> with
  \<open>using_ml\<close> set), the confidence of the safest glitch is the maximum of the three
  markets' best probabilities, and market and bet are those of the first market, in the
  order result, goals, BTTS, that reaches this maximum. The heuristic fallback result
  (\<open>using_ml\<close> false) always names the match result market, with that market's pick and
  confidence.
\<close>

theorem safest_glitch_first_max:
  "(predict_all_markets bnk dfo gi h a c = Inr (Predicted p) \<longrightarrow>
      first_max_pick ''win'' ''goals'' ''btts'' (predictions p) (safest_glitch p))
   \<and> (predict_match_ml bnk dfo h a = Inr q \<and> using_ml q \<longrightarrow>
      first_max_pick ''Match Result'' ''Goals'' ''BTTS'' (predictions q) (safest_glitch q))
   \<and> (predict_match_ml bnk dfo h a = Inr q \<and> \<not> using_ml q \<longrightarrow>
      market (safest_glitch q) = ''Match Result''
      \<and> bet (safest_glitch q) = best_bet (win (predictions q))
      \<and> confidence (safest_glitch q) = best_prob (win (predictions q)))"
proof (intro conjI impI)
  assume "predict_all_markets bnk dfo gi h a c = Inr (Predicted p)"
  then have "safest_glitch p = find_safest ''win'' ''goals'' ''btts'' (predictions p)"
    by (rule predict_all_markets_Predicted)
  then show "first_max_pick ''win'' ''goals'' ''btts'' (predictions p) (safest_glitch p)"
    by (simp add: find_safest_first_max)
next
  assume "predict_match_ml bnk dfo h a = Inr q \<and> using_ml q"
  then show "first_max_pick ''Match Result'' ''Goals'' ''BTTS'' (predictions q) (safest_glitch q)"
    using predict_match_ml_using_ml(1) find_safest_first_max by metis
next
  assume *: "predict_match_ml bnk dfo h a = Inr q \<and> \<not> using_ml q"
  then have q: "q = predict_match_heuristic dfo h a"
    using predict_match_ml_using_ml(2) by blast
  show "market (safest_glitch q) = ''Match Result''"
    unfolding q using heuristic_safest by blast
  show "bet (safest_glitch q) = best_bet (win (predictions q))"
    unfolding q using heuristic_safest by blast
  show "confidence (safest_glitch q) = best_prob (win (predictions q))"
    unfolding q using heuristic_safest by blast
qed

lemma select_ex_config:
  "select_columns (feature_dict hs as) (features ex_config) =
     Inr [real_of_int (form hs), real_of_int (form as), avg_goals hs, avg_goals as,
          avg_conceded hs, avg_conceded as, btts_rate hs, btts_rate as]"
  by (simp add: feature_dict_def ex_config_def)

lemma ex_models_const: "X \<noteq> [] \<Longrightarrow> pg_predictions ex_models X = pg_predictions ex_models []"
  by (simp add: pg_predictions_def ex_models_def)

lemma ex_pg_probs:
  "best_prob (win (pg_predictions ex_models [])) = 50"
  "best_prob (goals (pg_predictions ex_models [])) = 60"
  "best_prob (btts (pg_predictions ex_models [])) = 60"
  "best_bet (goals (pg_predictions ex_models [])) = ''Over 2.5''"
  by (simp_all add: pg_predictions_def ex_models_def max3_def max2_def Let_def)

lemma ex_pg_safest:
  "find_safest ''win'' ''goals'' ''btts'' (pg_predictions ex_models []) =
     \<lparr>market = ''goals'', bet = ''Over 2.5'', confidence = 60\<rparr>"
  by (simp add: find_safest_def all_bets_def py_max_key_def ex_pg_probs Let_def)

lemma ex_run:
  "predict_all_markets (Some (ex_models, ex_config)) (Some ex_history) ex_api
      ''Arsenal'' ''Chelsea'' False = Inr (Predicted ex_prediction)"
  unfolding predict_all_markets_loaded pg_run_models_def prepare_features_def select_ex_config
  by (simp add: ex_models_const ex_pg_safest ex_prediction_def ex_config_def)

lemma ex_ge_models_const:
  "X \<noteq> [] \<Longrightarrow> ge_predictions ex_models X = ge_predictions ex_models []"
  by (simp add: ge_predictions_def ex_models_def)

lemma ex_ge_probs:
  "best_prob (win (ge_predictions ex_models [])) = 50"
  "best_prob (goals (ge_predictions ex_models [])) = 60"
  "best_prob (btts (ge_predictions ex_models [])) = 60"
  "best_bet (goals (ge_predictions ex_models [])) = ''Over 2.5''"
  by (simp_all add: ge_predictions_def ex_models_def max3_def max2_def Let_def)

lemma ex_ge_safest:
  "find_safest ''Match Result'' ''Goals'' ''BTTS'' (ge_predictions ex_models []) =
     \<lparr>market = ''Goals'', bet = ''Over 2.5'', confidence = 60\<rparr>"
  by (simp add: find_safest_def all_bets_def py_max_key_def ex_ge_probs Let_def)

lemma ex_ge_run:
  "predict_match_ml (Some (ex_models, ex_config)) None ''Arsenal'' ''Chelsea''
     = Inr ex_ge_prediction"
  unfolding predict_match_ml_loaded select_ex_config
  by (simp add: ex_ge_models_const ex_ge_safest ex_ge_prediction_def ge_get_team_stats_def)

theorem safest_glitch_first_max_witness:
  "predict_all_markets (Some (ex_models, ex_config)) (Some ex_history) ex_api
      ''Arsenal'' ''Chelsea'' False = Inr (Predicted ex_prediction)
   \<and> first_max_pick ''win'' ''goals'' ''btts'' (predictions ex_prediction)
        (safest_glitch ex_prediction)
   \<and> best_prob (goals (predictions ex_prediction)) = 60
   \<and> best_prob (btts (predictions ex_prediction)) = 60
   \<and> market (safest_glitch ex_prediction) = ''goals''
   \<and> predict_match_ml (Some (ex_models, ex_config)) None ''Arsenal'' ''Chelsea''
        = Inr ex_ge_prediction
   \<and> using_ml ex_ge_prediction
   \<and> first_max_pick ''Match Result'' ''Goals'' ''BTTS'' (predictions ex_ge_prediction)
        (safest_glitch ex_ge_prediction)
   \<and> predict_match_ml None None ''Arsenal'' ''Chelsea''
        = Inr (predict_match_heuristic None ''Arsenal'' ''Chelsea'')
   \<and> \<not> using_ml (predict_match_heuristic None ''Arsenal'' ''Chelsea'')
   \<and> market (safest_glitch (predict_match_heuristic None ''Arsenal'' ''Chelsea''))
        = ''Match Result''"
proof -
  have a: "first_max_pick ''win'' ''goals'' ''btts'' (predictions ex_prediction)
        (safest_glitch ex_prediction)"
    using safest_glitch_first_max[of "Some (ex_models, ex_config)" "Some ex_history" ex_api
      "''Arsenal''" "''Chelsea''" False ex_prediction] ex_run by blast
  have u: "using_ml ex_ge_prediction" by (simp add: ex_ge_prediction_def)
  have b: "first_max_pick ''Match Result'' ''Goals'' ''BTTS'' (predictions ex_ge_prediction)
        (safest_glitch ex_ge_prediction)"
    using safest_glitch_first_max[of "Some (ex_models, ex_config)" None _
      "''Arsenal''" "''Chelsea''" _ _ ex_ge_prediction] ex_ge_run u by blast
  have c: "market (safest_glitch (predict_match_heuristic None ''Arsenal'' ''Chelsea''))
        = ''Match Result''"
    using safest_glitch_first_max[of None None _ "''Arsenal''" "''Chelsea''" _ _
        "predict_match_heuristic None ''Arsenal'' ''Chelsea''"]
      predict_match_ml_unloaded[of None "''Arsenal''" "''Chelsea''"]
      heuristic_not_ml[of None "''Arsenal''" "''Chelsea''"] by blast
  have d: "best_prob (goals (predictions ex_prediction)) = 60"
    "best_prob (btts (predictions ex_prediction)) = 60"
    "market (safest_glitch ex_prediction) = ''goals''"
    by (simp_all add: ex_prediction_def ex_pg_probs)
  show ?thesis
    using a b c d u ex_run ex_ge_run predict_match_ml_unloaded[of None "''Arsenal''" "''Chelsea''"]
      heuristic_not_ml[of None "''Arsenal''" "''Chelsea''"]
    by (intro conjI)
qed

lemma ex_heuristic_conf:
  "best_prob (win (predictions (predict_match_heuristic None ''Arsenal'' ''Chelsea''))) = 50"
  "best_prob (goals (predictions (predict_match_heuristic None ''Arsenal'' ''Chelsea''))) = 52"
  "best_prob (btts (predictions (predict_match_heuristic None ''Arsenal'' ''Chelsea''))) = 55"
  by (simp_all add: predict_match_heuristic_def Let_def)

text \<open>
  C4 as stated fails on the fallback result: without models and history the safest glitch
  has confidence 50, while the BTTS market reports 55.
\<close>

theorem safest_glitch_counterexample:
  "predict_match_ml None None ''Arsenal'' ''Chelsea''
     = Inr (predict_match_heuristic None ''Arsenal'' ''Chelsea'')
   \<and> confidence (safest_glitch (predict_match_heuristic None ''Arsenal'' ''Chelsea'')) = 50
   \<and> max (best_prob (win (predictions (predict_match_heuristic None ''Arsenal'' ''Chelsea''))))
        (max (best_prob (goals (predictions (predict_match_heuristic None ''Arsenal'' ''Chelsea''))))
             (best_prob (btts (predictions (predict_match_heuristic None ''Arsenal'' ''Chelsea'')))))
      = 55
   \<and> \<not> first_max_pick ''Match Result'' ''Goals'' ''BTTS''
          (predictions (predict_match_heuristic None ''Arsenal'' ''Chelsea''))
          (safest_glitch (predict_match_heuristic None ''Arsenal'' ''Chelsea''))"
  using heuristic_safest[of None "''Arsenal''" "''Chelsea''"]
  by (simp add: predict_match_ml_unloaded ex_heuristic_conf first_max_pick_def Let_def)

subsection \<open>Market probabilities and the heuristic fallback\<close>























subsection \<open>Unknown teams\<close>

lemma select_columns_known:
  "set cols \<subseteq> fst ` set d \<Longrightarrow> \<exists>X. select_columns d cols = Inr X"
proof (induction cols)
  case Nil
  then show ?case by simp
next
  case (Cons c cs)
  then obtain X where X: "select_columns d cs = Inr X" by auto
  from Cons.prems have "c \<in> fst ` set d" by simp
  then obtain v where "map_of d c = Some v"
    by (metis domIff dom_map_of_conv_image_fst not_Some_eq)
  with X show ?case by simp
qed

lemma pg_run_models_not_error: "pg_run_models ms cfg h a hs as news \<noteq> Inr (Error e)"
  by (simp add: pg_run_models_def Let_def split: sum.splits)

lemma predict_all_markets_not_error:
  "predict_all_markets (Some (ms, cfg)) (Some df) gi h a c \<noteq> Inr (Error e)"
  unfolding predict_all_markets_loaded
  by (simp add: pg_run_models_not_error)

lemma pg_run_models_ok:
  "prepare_features hs as (features cfg) = Inr X \<Longrightarrow>
   \<exists>p. pg_run_models ms cfg h a hs as news = Inr (Predicted p)
      \<and> home_stats p = hs \<and> away_stats p = as \<and> predictions p = pg_predictions ms X"
  by (simp add: pg_run_models_def Let_def)

lemma predict_all_markets_ok:
  assumes "prepare_features (pg_get_team_stats df h True 5) (pg_get_team_stats df a False 5)
             (features cfg) = Inr X"
    and "\<not> (c \<and> (truthy (get_team_id h) \<or> truthy (get_team_id a))
            \<and> should_skip (get_team_news gi (get_team_id h) (get_team_id a)))"
  shows "\<exists>p. predict_all_markets (Some (ms, cfg)) (Some df) gi h a c = Inr (Predicted p)
      \<and> home_stats p = pg_get_team_stats df h True 5
      \<and> away_stats p = pg_get_team_stats df a False 5
      \<and> predictions p = pg_predictions ms X"
proof -
  let ?news = "if c \<and> (truthy (get_team_id h) \<or> truthy (get_team_id a))
               then Some (get_team_news gi (get_team_id h) (get_team_id a)) else None"
  have "predict_all_markets (Some (ms, cfg)) (Some df) gi h a c =
      pg_run_models ms cfg h a (pg_get_team_stats df h True 5) (pg_get_team_stats df a False 5) ?news"
    using assms(2) unfolding predict_all_markets_loaded
    by (cases c; cases "truthy (get_team_id h)"; cases "truthy (get_team_id a)";
        cases "should_skip (get_team_news gi (get_team_id h) (get_team_id a))") simp_all
  then show ?thesis
    using pg_run_models_ok[OF assms(1), of ms h a ?news] by simp
qed

lemma predict_match_ml_ok:
  assumes "select_columns (feature_dict (ge_get_team_stats dfo h True 5)
              (ge_get_team_stats dfo a False 5)) (features cfg) = Inr X"
  shows "\<exists>q. predict_match_ml (Some (ms, cfg)) dfo h a = Inr q \<and> using_ml q
      \<and> home_stats q = ge_get_team_stats dfo h True 5
      \<and> away_stats q = ge_get_team_stats dfo a False 5
      \<and> predictions q = ge_predictions ms X"
  unfolding predict_match_ml_loaded using assms by simp

lemma main_unknown:
  assumes "h \<notin> all_teams df \<or> a \<notin> all_teams df"
  shows "main bnk df gi h a = TeamNotFound (if h \<notin> all_teams df then h else a) (all_teams df)"
  using assms by (auto simp: main_def)

text \<open>
  C3, as amended. Let the home or the away team be in no row of the history. The
  command-line entry point \<open>main\<close> rejects the call: it reports the (first) unknown team
  together with the known teams and does not predict. The predictors themselves do not
  validate: \<open>predict_all_markets\<close> and \<open>predict_match_ml\<close> give the unknown team the
  neutral default stats, never return an error result for it, and, when the schema names
  only known columns and the squad gate does not skip, return a regular prediction built
  from those stats.
\<close>

theorem unknown_team_handling:
  assumes "h \<notin> all_teams df \<or> a \<notin> all_teams df"
  shows "main bnk df gi h a = TeamNotFound (if h \<notin> all_teams df then h else a) (all_teams df)
   \<and> (h \<notin> all_teams df \<longrightarrow>
        pg_get_team_stats df h True 5 = default_stats
        \<and> ge_get_team_stats (Some df) h True 5 = default_stats)
   \<and> (a \<notin> all_teams df \<longrightarrow>
        pg_get_team_stats df a False 5 = default_stats
        \<and> ge_get_team_stats (Some df) a False 5 = default_stats)
   \<and> (\<forall>e. predict_all_markets (Some (ms, cfg)) (Some df) gi h a c \<noteq> Inr (Error e))
   \<and> (set (features cfg) \<subseteq> fst ` set (feature_dict default_stats default_stats) \<longrightarrow>
        (\<exists>X. prepare_features (pg_get_team_stats df h True 5) (pg_get_team_stats df a False 5)
                (features cfg) = Inr X))
   \<and> (prepare_features (pg_get_team_stats df h True 5) (pg_get_team_stats df a False 5)
          (features cfg) = Inr X
        \<and> \<not> (c \<and> (truthy (get_team_id h) \<or> truthy (get_team_id a))
               \<and> should_skip (get_team_news gi (get_team_id h) (get_team_id a))) \<longrightarrow>
        (\<exists>p. predict_all_markets (Some (ms, cfg)) (Some df) gi h a c = Inr (Predicted p)
            \<and> home_stats p = pg_get_team_stats df h True 5
            \<and> away_stats p = pg_get_team_stats df a False 5
            \<and> predictions p = pg_predictions ms X))
   \<and> (select_columns (feature_dict (ge_get_team_stats (Some df) h True 5)
          (ge_get_team_stats (Some df) a False 5)) (features cfg) = Inr Y \<longrightarrow>
        (\<exists>q. predict_match_ml (Some (ms, cfg)) (Some df) h a = Inr q \<and> using_ml q
            \<and> home_stats q = ge_get_team_stats (Some df) h True 5
            \<and> away_stats q = ge_get_team_stats (Some df) a False 5
            \<and> predictions q = ge_predictions ms Y))"
proof -
  have names: "fst ` set (feature_dict hs as) = fst ` set (feature_dict default_stats default_stats)"
    for hs as by (simp add: feature_dict_def)
  have cols: "\<exists>X. prepare_features (pg_get_team_stats df h True 5)
                 (pg_get_team_stats df a False 5) (features cfg) = Inr X"
    if "set (features cfg) \<subseteq> fst ` set (feature_dict default_stats default_stats)"
  proof -
    have "set (features cfg) \<subseteq> fst ` set (feature_dict (pg_get_team_stats df h True 5)
              (pg_get_team_stats df a False 5))"
      using that
      by (simp only: names[of "pg_get_team_stats df h True 5" "pg_get_team_stats df a False 5"])
    then show ?thesis
      unfolding prepare_features_def by (rule select_columns_known)
  qed
  have m: "main bnk df gi h a = TeamNotFound (if h \<notin> all_teams df then h else a) (all_teams df)"
    by (rule main_unknown[OF assms])
  have hd: "h \<notin> all_teams df \<longrightarrow>
        pg_get_team_stats df h True 5 = default_stats
        \<and> ge_get_team_stats (Some df) h True 5 = default_stats"
    using absent_rows[of h df]
    by (simp add: pg_get_team_stats_def pg_venue_games_def ge_get_team_stats_def
        ge_venue_games_def df_tail_Nil)
  have ad: "a \<notin> all_teams df \<longrightarrow>
        pg_get_team_stats df a False 5 = default_stats
        \<and> ge_get_team_stats (Some df) a False 5 = default_stats"
    using absent_rows[of a df]
    by (simp add: pg_get_team_stats_def pg_venue_games_def ge_get_team_stats_def
        ge_venue_games_def df_tail_Nil)
  have ne: "\<forall>e. predict_all_markets (Some (ms, cfg)) (Some df) gi h a c \<noteq> Inr (Error e)"
    using predict_all_markets_not_error by blast
  have c1: "set (features cfg) \<subseteq> fst ` set (feature_dict default_stats default_stats) \<longrightarrow>
        (\<exists>X. prepare_features (pg_get_team_stats df h True 5) (pg_get_team_stats df a False 5)
                (features cfg) = Inr X)"
    using cols by blast
  have ok: "prepare_features (pg_get_team_stats df h True 5) (pg_get_team_stats df a False 5)
          (features cfg) = Inr X
        \<and> \<not> (c \<and> (truthy (get_team_id h) \<or> truthy (get_team_id a))
               \<and> should_skip (get_team_news gi (get_team_id h) (get_team_id a))) \<longrightarrow>
        (\<exists>p. predict_all_markets (Some (ms, cfg)) (Some df) gi h a c = Inr (Predicted p)
            \<and> home_stats p = pg_get_team_stats df h True 5
            \<and> away_stats p = pg_get_team_stats df a False 5
            \<and> predictions p = pg_predictions ms X)"
    using predict_all_markets_ok[of df h a cfg X c gi ms] by blast
  have gk: "select_columns (feature_dict (ge_get_team_stats (Some df) h True 5)
          (ge_get_team_stats (Some df) a False 5)) (features cfg) = Inr Y \<longrightarrow>
        (\<exists>q. predict_match_ml (Some (ms, cfg)) (Some df) h a = Inr q \<and> using_ml q
            \<and> home_stats q = ge_get_team_stats (Some df) h True 5
            \<and> away_stats q = ge_get_team_stats (Some df) a False 5
            \<and> predictions q = ge_predictions ms Y)"
    using predict_match_ml_ok[of "Some df" h a cfg Y ms] by blast
  from m hd ad ne c1 ok gk show ?thesis by (intro conjI)
qed

lemma chelsea_id: "get_team_id ''Chelsea'' = Some 49"
  by (simp add: get_team_id_def TEAM_IDS_def)

lemma ex_no_injuries_score: "side_score (side_news ex_no_injuries (Some i)) = 100"
  by (simp add: side_score_eq score_eq ex_no_injuries_def)

lemma ex_no_skip: "\<not> should_skip (get_team_news ex_no_injuries (Some 45) (Some 49))"
  by (simp add: should_skip_iff ex_no_injuries_score)

lemma everton_unknown: "''Everton'' \<notin> all_teams ex_history"
  by (simp add: all_teams_def ex_history_def)

lemma everton_default: "pg_get_team_stats ex_history ''Everton'' True 5 = default_stats"
  using absent_rows[OF everton_unknown]
  by (simp add: pg_get_team_stats_def pg_venue_games_def df_tail_Nil)

text \<open>
  C3 as stated fails: Everton is in no row of the scenario history, and
  \<open>predict_all_markets\<close> (squad check on, nobody injured) returns a prediction for
  Everton against Chelsea whose home stats are the defaults.
\<close>

theorem unknown_team_counterexample:
  "''Everton'' \<notin> all_teams ex_history
   \<and> predict_all_markets (Some (ex_models, ex_config)) (Some ex_history) ex_no_injuries
        ''Everton'' ''Chelsea'' True = Inr (Predicted ex_unknown_prediction)
   \<and> home_stats ex_unknown_prediction = default_stats"
proof -
  have run: "predict_all_markets (Some (ex_models, ex_config)) (Some ex_history) ex_no_injuries
        ''Everton'' ''Chelsea'' True = Inr (Predicted ex_unknown_prediction)"
    unfolding predict_all_markets_loaded everton_id chelsea_id pg_run_models_def
      prepare_features_def select_ex_config
    by (simp add: truthy_def ex_no_skip everton_default ex_models_const ex_pg_safest
        ex_unknown_prediction_def ex_config_def)
  show ?thesis
    using everton_unknown run by (simp add: ex_unknown_prediction_def)
qed

theorem unknown_team_handling_witness:
  "''Everton'' \<notin> all_teams ex_history
   \<and> main (Some (ex_models, ex_config)) ex_history ex_no_injuries ''Everton'' ''Chelsea''
       = TeamNotFound ''Everton'' (all_teams ex_history)
   \<and> pg_get_team_stats ex_history ''Everton'' True 5 = default_stats
   \<and> ge_get_team_stats (Some ex_history) ''Everton'' True 5 = default_stats"
proof -
  have u: "''Everton'' \<notin> all_teams ex_history \<or> ''Chelsea'' \<notin> all_teams ex_history"
    using everton_unknown by simp
  show ?thesis
    using unknown_team_handling[OF u, of "Some (ex_models, ex_config)" ex_no_injuries]
      everton_unknown by simp
qed

subsection \<open>Training-time features\<close>

lemma rolling_loop_append:
  "rolling_loop n tr (xs @ ys) =
     rolling_loop n tr xs @ rolling_loop n (foldl update_tracking tr xs) ys"
  by (induction xs arbitrary: tr) simp_all

lemma length_rolling_loop: "length (rolling_loop n tr xs) = length xs"
  by (induction xs arbitrary: tr) simp_all

lemma rolling_stats_nth:
  assumes "i < length df"
  shows "calculate_rolling_stats df n ! i = row_features n (tracking_after (take i df)) (df ! i)"
proof -
  have split: "df = take i df @ (df ! i) # drop (Suc i) df"
    using assms by (simp add: id_take_nth_drop)
  have "calculate_rolling_stats df n =
      rolling_loop n empty_tracking (take i df)
      @ rolling_loop n (tracking_after (take i df)) ((df ! i) # drop (Suc i) df)"
    unfolding calculate_rolling_stats_def tracking_after_def
    by (subst split, rule rolling_loop_append)
  moreover have "length (rolling_loop n empty_tracking (take i df)) = i"
    using assms by (simp add: length_rolling_loop)
  ultimately show ?thesis by (simp add: nth_append)
qed

lemma tracking_after_snoc:
  "tracking_after (rows @ [row]) = update_tracking (tracking_after rows) row"
  by (simp add: tracking_after_def)

text \<open>
  C2. Let two date-sorted histories agree on all rows up to and including position
  \<open>i\<close>. Then the training-time features of row \<open>i\<close> are the same in both: they are
  computed from the tracking state built from the rows before \<open>i\<close> only, and the tracking
  state is updated with row \<open>i\<close> after that. The loop gives one feature row per match.
\<close>

theorem no_lookahead:
  assumes "i < length xs" and "i < length ys" and "take (Suc i) xs = take (Suc i) ys"
  shows "length (calculate_rolling_stats xs n) = length xs
       \<and> calculate_rolling_stats xs n ! i = calculate_rolling_stats ys n ! i
       \<and> calculate_rolling_stats xs n ! i
           = row_features n (tracking_after (take i xs)) (xs ! i)
       \<and> tracking_after (take (Suc i) xs)
           = update_tracking (tracking_after (take i xs)) (xs ! i)"
proof -
  have "take i (take (Suc i) xs) = take i (take (Suc i) ys)"
    using assms(3) by simp
  then have pre: "take i xs = take i ys" by (simp add: min_def)
  have "take (Suc i) xs ! i = take (Suc i) ys ! i"
    using assms(3) by simp
  then have row: "xs ! i = ys ! i" by simp
  have len: "length (calculate_rolling_stats xs n) = length xs"
    by (simp add: calculate_rolling_stats_def length_rolling_loop)
  have fx: "calculate_rolling_stats xs n ! i
           = row_features n (tracking_after (take i xs)) (xs ! i)"
    by (rule rolling_stats_nth[OF assms(1)])
  have fy: "calculate_rolling_stats ys n ! i
           = row_features n (tracking_after (take i ys)) (ys ! i)"
    by (rule rolling_stats_nth[OF assms(2)])
  have upd: "tracking_after (take (Suc i) xs)
           = update_tracking (tracking_after (take i xs)) (xs ! i)"
    using assms(1) by (simp add: take_Suc_conv_app_nth tracking_after_snoc)
  from len fx fy pre row upd show ?thesis by simp
qed

lemma update_tracking_fields:
  "home_goals (update_tracking tr r) = append_to (home_goals tr) (HomeTeam r) (FTHG r)"
  "home_conceded (update_tracking tr r) = append_to (home_conceded tr) (HomeTeam r) (FTAG r)"
  "away_goals (update_tracking tr r) = append_to (away_goals tr) (AwayTeam r) (FTAG r)"
  "away_conceded (update_tracking tr r) = append_to (away_conceded tr) (AwayTeam r) (FTHG r)"
  "home_btts (update_tracking tr r) = append_to (home_btts tr) (HomeTeam r) (btts_flag r)"
  "away_btts (update_tracking tr r) = append_to (away_btts tr) (AwayTeam r) (btts_flag r)"
  "team_results (update_tracking tr r) =
     append_to (append_to (team_results tr) (HomeTeam r) (home_points r))
       (AwayTeam r) (away_points r)"
  by (simp_all add: update_tracking_def Let_def btts_flag_def home_points_def away_points_def)

lemma tracking_after_Nil:
  "home_goals (tracking_after []) t = []" "home_conceded (tracking_after []) t = []"
  "away_goals (tracking_after []) t = []" "away_conceded (tracking_after []) t = []"
  "home_btts (tracking_after []) t = []" "away_btts (tracking_after []) t = []"
  "team_results (tracking_after []) t = []"
  by (simp_all add: tracking_after_def empty_tracking_def)







lemma track_team_results:
  "team_results (tracking_after xs) t = concat (map (results_of t) xs)"
  by (induction xs rule: rev_induct)
    (auto simp: tracking_after_Nil tracking_after_snoc update_tracking_fields
      append_to_def results_of_def)






























lemma ex_alt_facts:
  "length ex_history_alt = 4"
  "HomeTeam (ex_history_alt ! 3) = ''Chelsea''"
  "AwayTeam (ex_history_alt ! 3) = ''Arsenal''"
  "well_formed (take 3 ex_history_alt)"
  "length (home_rows (take 3 ex_history_alt) ''Chelsea'') = 0"
  "length (all_rows (take 3 ex_history_alt) ''Chelsea'') = 3"
  "length (away_rows (take 3 ex_history_alt) ''Arsenal'') = 0"
  "length (all_rows (take 3 ex_history_alt) ''Arsenal'') = 3"
  by (simp_all add: ex_history_alt_def well_formed_def home_rows_def away_rows_def all_rows_def)


lemma ex_history_facts:
  "length ex_history = 5"
  "take (Suc 2) ex_history = take (Suc 2) ex_history_alt"
  "ex_history \<noteq> ex_history_alt"
  "ex_history ! 2
     = \<lparr>HomeTeam = ''Arsenal'', AwayTeam = ''Chelsea'', FTHG = 1, FTAG = 1, FTR = ''D''\<rparr>"
  "take 2 ex_history =
     [\<lparr>HomeTeam = ''Arsenal'', AwayTeam = ''Chelsea'', FTHG = 2, FTAG = 0, FTR = ''H''\<rparr>,
      \<lparr>HomeTeam = ''Arsenal'', AwayTeam = ''Chelsea'', FTHG = 3, FTAG = 1, FTR = ''H''\<rparr>]"
  by (simp_all add: ex_history_def ex_history_alt_def)

theorem no_lookahead_witness:
  "(2::nat) < length ex_history \<and> 2 < length ex_history_alt
   \<and> take (Suc 2) ex_history = take (Suc 2) ex_history_alt
   \<and> ex_history \<noteq> ex_history_alt
   \<and> calculate_rolling_stats ex_history 2 ! 2 = calculate_rolling_stats ex_history_alt 2 ! 2
   \<and> HomeTeam_Form (calculate_rolling_stats ex_history 2 ! 2) = Some 6"
proof -
  have a: "(2::nat) < length ex_history" "(2::nat) < length ex_history_alt"
    by (simp_all add: ex_history_facts ex_alt_facts)
  have r: "team_results (tracking_after (take 2 ex_history)) ''Arsenal'' = [3, 3]"
    unfolding track_team_results ex_history_facts
    by (simp add: results_of_def home_points_def away_points_def)
  have v: "HomeTeam_Form (row_features 2 (tracking_after (take 2 ex_history)) (ex_history ! 2))
      = Some 6"
    by (simp add: row_features_def Let_def ex_history_facts(4) r py_last_def)
  have e1: "calculate_rolling_stats ex_history 2 ! 2 = calculate_rolling_stats ex_history_alt 2 ! 2"
    and e2: "calculate_rolling_stats ex_history 2 ! 2
           = row_features 2 (tracking_after (take 2 ex_history)) (ex_history ! 2)"
    using no_lookahead[OF a ex_history_facts(2), of 2] by blast+
  have e3: "HomeTeam_Form (calculate_rolling_stats ex_history 2 ! 2) = Some 6"
    unfolding e2 by (rule v)
  from a ex_history_facts(2,3) e1 e3 show ?thesis by (intro conjI)
qed

end
